theory Spec2Isabelle
  imports Complex_Main
begin

section \<open>The development watcher of the plugin (scripts/dev-watcher.py)\<close>

text \<open>
  The class \<open>PluginDevWatcher\<close> is embedded function by function. Its fields are
  the record \<open>watcher\<close>, passed in and returned where a method assigns one. What the
  script reads from outside (the clock, the manifest, the project files, the result of the
  build subprocess, whether a directory creation or a file copy raises) is an argument of
  the function that reads it; what it does outside (the destination directory it writes,
  the subprocesses it starts) is the record \<open>world\<close>. Readings of \<open>time.time()\<close> and
  modification times are real numbers. The \<open>print\<close> calls are left out.
\<close>

subsection \<open>Paths (pathlib, POSIX flavour)\<close>

text \<open>
  A path is its root (\<open>''''\<close>, \<open>''/''\<close> or \<open>''//''\<close>) and its components, as
  \<open>PurePosixPath\<close> keeps them: empty components and \<open>.\<close> are dropped when a string is
  parsed, and joining an absolute string replaces the path on the left.
\<close>

record path =
  anchor :: string
  segments :: "string list"

fun split_sep :: "string \<Rightarrow> string list" where
  "split_sep [] = [[]]"
| "split_sep (c # cs) =
     (if c = CHR ''/'' then [] # split_sep cs
      else (case split_sep cs of [] \<Rightarrow> [[c]] | s # ss \<Rightarrow> (c # s) # ss))"

definition components :: "string \<Rightarrow> string list" where
  "components s = filter (\<lambda>c. c \<noteq> [] \<and> c \<noteq> ''.'') (split_sep s)"

definition splitroot :: "string \<Rightarrow> string \<times> string" where
  "splitroot p =
     (if take 1 p \<noteq> ''/'' then ([], p)
      else if take 1 (drop 1 p) \<noteq> ''/'' \<or> take 1 (drop 2 p) = ''/'' then (''/'', drop 1 p)
      else (''//'', drop 2 p))"

definition Path :: "string \<Rightarrow> path" where
  "Path s = (case splitroot s of (r, rel) \<Rightarrow> \<lparr>anchor = r, segments = components rel\<rparr>)"

definition joinpath :: "path \<Rightarrow> string \<Rightarrow> path" where
  "joinpath p s =
     (if take 1 s = ''/'' then Path s
      else p\<lparr>segments := segments p @ components s\<rparr>)"

definition name_of :: "path \<Rightarrow> string" where
  "name_of p = (if segments p = [] then [] else last (segments p))"

definition parts_of :: "path \<Rightarrow> string list" where
  "parts_of p = (if anchor p = [] then [] else [anchor p]) @ segments p"

fun rfind :: "char \<Rightarrow> string \<Rightarrow> nat option" where
  "rfind c [] = None"
| "rfind c (x # xs) =
     (case rfind c xs of
        Some i \<Rightarrow> Some (Suc i)
      | None \<Rightarrow> if x = c then Some 0 else None)"

definition suffix_of :: "path \<Rightarrow> string" where
  "suffix_of p =
     (let name = name_of p in
      case rfind (CHR ''.'') name of
        None \<Rightarrow> []
      | Some i \<Rightarrow> if 0 < i \<and> Suc i < length name then drop i name else [])"

definition is_relative_to :: "path \<Rightarrow> path \<Rightarrow> bool" where
  "is_relative_to p other \<longleftrightarrow>
     anchor p = anchor other \<and> take (length (segments other)) (segments p) = segments other"

subsection \<open>The manifest and the plugin descriptor\<close>

text \<open>
  What \<open>json.load\<close> returns. An object is the list of its items, keys distinct, looked
  up with \<open>map_of\<close>.
\<close>

datatype json =
    JNull
  | JBool bool
  | JNum real
  | JStr string
  | JArr "json list"
  | JObj "(string \<times> json) list"

datatype error =
    ValueError
  | TypeError
  | KeyError
  | JSONDecodeError
  | OSError
  | FileExistsError

text \<open>The file \<open>manifest.json\<close> of the project root, as \<open>_load_plugin_info\<close> finds it.\<close>

datatype manifest_file =
    Missing
  | Unreadable
  | Malformed
  | Parsed json

record plugin_info =
  plugin_id :: string
  plugin_name :: json
  plugin_dir :: path

text \<open>\<open>manifest[key]\<close>: only a dict can be indexed by a string.\<close>

fun subscript :: "json \<Rightarrow> string \<Rightarrow> error + json" where
  "subscript (JObj items) key =
     (case map_of items key of None \<Rightarrow> Inl KeyError | Some v \<Rightarrow> Inr v)"
| "subscript _ key = Inl TypeError"

text \<open>\<open>manifest.get(key, default)\<close> on a dict.\<close>

fun get_default :: "json \<Rightarrow> string \<Rightarrow> json \<Rightarrow> json" where
  "get_default (JObj items) key dflt =
     (case map_of items key of None \<Rightarrow> dflt | Some v \<Rightarrow> v)"
| "get_default _ key dflt = dflt"

text \<open>
  \<open>_load_plugin_info\<close>. \<open>Inr None\<close> is the return value \<open>None\<close>; \<open>Inl\<close> is an
  exception that the \<open>except (json.JSONDecodeError, KeyError)\<close> clause does not catch.
  Dividing a path by a value that is not a string raises \<open>TypeError\<close>.
\<close>

definition load_plugin_info :: "path \<Rightarrow> manifest_file \<Rightarrow> error + plugin_info option" where
  "load_plugin_info obsidian_vault_path mf =
     (case mf of
        Missing \<Rightarrow> Inr None
      | Unreadable \<Rightarrow> Inl OSError
      | Malformed \<Rightarrow> Inr None
      | Parsed manifest \<Rightarrow>
          (case subscript manifest ''id'' of
             Inl KeyError \<Rightarrow> Inr None
           | Inl e \<Rightarrow> Inl e
           | Inr (JStr i) \<Rightarrow>
               Inr (Some \<lparr>plugin_id = i,
                          plugin_name = get_default manifest ''name'' (JStr i),
                          plugin_dir =
                            joinpath (joinpath (joinpath obsidian_vault_path ''.obsidian'')
                              ''plugins'') i\<rparr>)
           | Inr _ \<Rightarrow> Inl TypeError))"

subsection \<open>The watcher object\<close>

record watcher =
  project_root :: path
  obsidian_vault_path :: path
  last_copy_time :: real
  last_rebuild_time :: real
  debounce_seconds :: real
  rebuild_debounce_seconds :: real
  dev_process :: bool
  info :: plugin_info

text \<open>\<open>__init__\<close>: raises \<open>ValueError\<close> when no descriptor could be loaded.\<close>

definition init :: "path \<Rightarrow> path \<Rightarrow> manifest_file \<Rightarrow> error + watcher" where
  "init root_dir vault mf =
     (case load_plugin_info vault mf of
        Inl e \<Rightarrow> Inl e
      | Inr None \<Rightarrow> Inl ValueError
      | Inr (Some descr) \<Rightarrow>
          Inr \<lparr>project_root = root_dir,
               obsidian_vault_path = vault,
               last_copy_time = 0,
               last_rebuild_time = 0,
               debounce_seconds = 2,
               rebuild_debounce_seconds = 1,
               dev_process = False,
               info = descr\<rparr>)"

subsection \<open>Files, the destination directory and the script's effects\<close>

record regular_file =
  fdata :: string
  fmtime :: real

definition st_size :: "regular_file \<Rightarrow> nat" where
  "st_size f = length (fdata f)"

type_synonym dir = "string \<rightharpoonup> regular_file"

text \<open>What is at the path \<open>plugin_dir\<close>: nothing, something that is no directory, or a
  directory with its files.\<close>

datatype node = Absent | NotDir | Dir dir

text \<open>
  What the script does outside itself, in order: the background \<open>pnpm run dev\<close> it
  starts, each \<open>pnpm run build\<close> it runs (with the timeout it gives), each file it has
  copied with \<open>shutil.copy2\<close>.
\<close>

datatype effect = Spawn_dev | Build nat | Copy string

record world =
  dest :: node
  effects :: "effect list"

text \<open>
  What one call of \<open>_copy_plugin_files\<close> finds: the clock reading of
  \<open>_check_build_success\<close>, the files of the project root, whether creating an absent
  destination directory raises, and for which files \<open>shutil.copy2\<close> raises. A copy that
  raises is taken to leave the destination as it was.
\<close>

record env =
  now :: real
  proj :: dir
  mkdir_fails :: bool
  copy_fails :: "string \<Rightarrow> bool"

text \<open>\<open>_create_plugin_directory\<close>: \<open>exists()\<close> holds of anything that is there.\<close>

definition create_plugin_directory :: "bool \<Rightarrow> world \<Rightarrow> bool \<times> world" where
  "create_plugin_directory fails w =
     (case dest w of
        Absent \<Rightarrow> if fails then (False, w) else (True, w\<lparr>dest := Dir Map.empty\<rparr>)
      | _ \<Rightarrow> (True, w))"

text \<open>\<open>_check_build_success\<close>.\<close>

definition check_build_success :: "env \<Rightarrow> bool \<Rightarrow> bool" where
  "check_build_success e is_initial_copy =
     (case proj e ''main.js'' of
        Some main_js \<Rightarrow>
          if is_initial_copy then st_size main_js > 0
          else now e - fmtime main_js < 30
      | None \<Rightarrow> False)"

text \<open>\<open>plugin_dir.mkdir(parents=True, exist_ok=True)\<close>, giving the directory's files.\<close>

definition mkdir_exist_ok :: "bool \<Rightarrow> node \<Rightarrow> error + dir" where
  "mkdir_exist_ok fails n =
     (case n of
        Dir d \<Rightarrow> Inr d
      | NotDir \<Rightarrow> Inl FileExistsError
      | Absent \<Rightarrow> if fails then Inl OSError else Inr Map.empty)"

definition files_to_copy :: "string list" where
  "files_to_copy = [''main.js'', ''styles.css'', ''manifest.json'']"

text \<open>The loop of \<open>_copy_plugin_files\<close> over the remaining names, on \<open>copied_files\<close>
  and the destination's files.\<close>

fun copy_loop :: "env \<Rightarrow> string list \<Rightarrow> string list \<times> dir \<Rightarrow> string list \<times> dir" where
  "copy_loop e [] acc = acc"
| "copy_loop e (filename # rest) (copied_files, d) =
     (case proj e filename of
        Some src_file \<Rightarrow>
          if copy_fails e filename then copy_loop e rest (copied_files, d)
          else copy_loop e rest (copied_files @ [filename], d(filename \<mapsto> src_file))
      | None \<Rightarrow> copy_loop e rest (copied_files, d))"

text \<open>\<open>_copy_plugin_files\<close>. \<open>Inl\<close> is the exception of the \<open>mkdir\<close> call, which is
  outside the loop's \<open>try\<close>; nothing has been written when it is raised.\<close>

definition copy_plugin_files :: "env \<Rightarrow> bool \<Rightarrow> world \<Rightarrow> error + bool \<times> world" where
  "copy_plugin_files e is_initial_copy w =
     (if \<not> check_build_success e is_initial_copy then Inr (False, w)
      else
        (case mkdir_exist_ok (mkdir_fails e) (dest w) of
           Inl err \<Rightarrow> Inl err
         | Inr d \<Rightarrow>
             (case copy_loop e files_to_copy ([], d) of
                (copied_files, d') \<Rightarrow>
                  Inr (copied_files \<noteq> [],
                       \<lparr>dest = Dir d', effects = effects w @ map Copy copied_files\<rparr>))))"

subsection \<open>The debounce gates\<close>

text \<open>\<open>_should_copy\<close> and \<open>_should_rebuild\<close>, on the clock reading each takes.\<close>

definition should_copy :: "watcher \<Rightarrow> real \<Rightarrow> bool \<times> watcher" where
  "should_copy st current_time =
     (if current_time - last_copy_time st > debounce_seconds st
      then (True, st\<lparr>last_copy_time := current_time\<rparr>)
      else (False, st))"

definition should_rebuild :: "watcher \<Rightarrow> real \<Rightarrow> bool \<times> watcher" where
  "should_rebuild st current_time =
     (if current_time - last_rebuild_time st > rebuild_debounce_seconds st
      then (True, st\<lparr>last_rebuild_time := current_time\<rparr>)
      else (False, st))"

subsection \<open>Building\<close>

text \<open>What \<open>subprocess.run\<close> gives: a completed process (exit code, stdout, stderr),
  \<open>TimeoutExpired\<close>, or another exception.\<close>

datatype build_outcome =
    Exited int string string
  | Timed_out
  | Launch_error

definition ran :: "nat \<Rightarrow> world \<Rightarrow> world" where
  "ran timeout w = w\<lparr>effects := effects w @ [Build timeout]\<rparr>"

text \<open>\<open>_rebuild_plugin\<close>: every exception is caught, also the one of
  \<open>_copy_plugin_files\<close>.\<close>

definition rebuild_plugin :: "build_outcome \<Rightarrow> env \<Rightarrow> world \<Rightarrow> world" where
  "rebuild_plugin result e w =
     (let w1 = ran 30 w in
      case result of
        Exited returncode out err \<Rightarrow>
          if returncode = 0 then
            (case copy_plugin_files e False w1 of
               Inl x \<Rightarrow> w1
             | Inr (ok, w2) \<Rightarrow> w2)
          else w1
      | Timed_out \<Rightarrow> w1
      | Launch_error \<Rightarrow> w1)"

text \<open>\<open>build_and_copy_once\<close>, with whether creating the directory raises.\<close>

definition build_and_copy_once :: "bool \<Rightarrow> build_outcome \<Rightarrow> env \<Rightarrow> world \<Rightarrow> bool \<times> world" where
  "build_and_copy_once fails result e w =
     (case create_plugin_directory fails w of
        (False, w0) \<Rightarrow> (False, w0)
      | (True, w0) \<Rightarrow>
          (let w1 = ran 60 w0 in
           case result of
             Exited returncode out err \<Rightarrow>
               if returncode = 0 then
                 (case copy_plugin_files e True w1 of
                    Inl x \<Rightarrow> (False, w1)
                  | Inr (ok, w2) \<Rightarrow> if ok then (True, w2) else (False, w2))
               else (False, w1)
           | Timed_out \<Rightarrow> (False, w1)
           | Launch_error \<Rightarrow> (False, w1)))"

text \<open>\<open>start_dev_mode\<close>, with whether creating the directory raises and whether
  \<open>subprocess.Popen\<close> raises. The initial copy is outside the \<open>try\<close>: its exception
  leaves the method.\<close>

definition start_dev_mode ::
  "watcher \<Rightarrow> bool \<Rightarrow> bool \<Rightarrow> env \<Rightarrow> world \<Rightarrow> error + bool \<times> watcher \<times> world" where
  "start_dev_mode st fails popen_fails e w =
     (case create_plugin_directory fails w of
        (False, w0) \<Rightarrow> Inr (False, st, w0)
      | (True, w0) \<Rightarrow>
          if popen_fails then Inr (False, st, w0)
          else
            (let st1 = st\<lparr>dev_process := True\<rparr>;
                 w1 = w0\<lparr>effects := effects w0 @ [Spawn_dev]\<rparr>
             in case copy_plugin_files e True w1 of
                  Inl err \<Rightarrow> Inl err
                | Inr (ok, w2) \<Rightarrow> Inr (True, st1, w2)))"

subsection \<open>The event handler\<close>

record event =
  is_directory :: bool
  src_path :: string

text \<open>The two filters of \<open>on_modified\<close> before the debounce check.\<close>

definition relevant :: "watcher \<Rightarrow> event \<Rightarrow> bool" where
  "relevant st ev =
     (let file_path = Path (src_path ev) in
      \<not> is_directory ev \<and>
      \<not> (name_of file_path = ''main.js'' \<or>
         take 1 (name_of file_path) = ''.'' \<or>
         ''node_modules'' \<in> set (parts_of file_path) \<or>
         suffix_of file_path \<notin> set [''.ts'', ''.tsx'', ''.js'', ''.jsx'', ''.json'', ''.css'']) \<and>
      (is_relative_to file_path (joinpath (project_root st) ''src'') \<or>
       name_of file_path \<in> set [''package.json'', ''tsconfig.json'', ''esbuild.config.mjs'']))"

text \<open>
  \<open>on_modified\<close>, with the clock reading of \<open>_should_rebuild\<close>, the result of the build
  and what \<open>_copy_plugin_files\<close> finds after it. \<open>_should_copy\<close> is not called. How
  long the call takes is \<open>returns_at\<close> below.
\<close>

definition on_modified ::
  "watcher \<Rightarrow> event \<Rightarrow> real \<Rightarrow> build_outcome \<Rightarrow> env \<Rightarrow> world \<Rightarrow> watcher \<times> world" where
  "on_modified st ev current_time result e w =
     (if \<not> relevant st ev then (st, w)
      else
        (case should_rebuild st current_time of
           (False, st') \<Rightarrow> (st', w)
         | (True, st') \<Rightarrow> (st', rebuild_plugin result e w)))"

text \<open>
  The clock when \<open>on_modified\<close>, entered at the reading \<open>current_time\<close>, returns. The
  early returns take no time. After an acceptance \<open>time.sleep(1)\<close> suspends the thread
  for one second, and \<open>_rebuild_plugin\<close> blocks until the build and the copy are done,
  which takes \<open>took\<close>.
\<close>

definition returns_at :: "watcher \<Rightarrow> event \<Rightarrow> real \<Rightarrow> real \<Rightarrow> real" where
  "returns_at st ev current_time took =
     (if \<not> relevant st ev then current_time
      else
        (case should_rebuild st current_time of
           (False, st') \<Rightarrow> current_time
         | (True, st') \<Rightarrow> current_time + 1 + took))"

text \<open>
  The observer thread hands the events to \<open>on_modified\<close> one after the other, in the
  one thread: an event that arrives while the handler is busy waits in the queue and is
  handled when the handler has returned. \<open>clock\<close> is the time at which the thread is
  free. An event comes with the time at which it arrives, the result of its build, how
  long its build and copy take, and what \<open>_copy_plugin_files\<close> finds; its handler reads
  the clock as soon as the event has arrived and the thread is free.
\<close>

fun dispatch ::
  "watcher \<Rightarrow> real \<Rightarrow> (event \<times> real \<times> build_outcome \<times> real \<times> env) list \<Rightarrow> world
     \<Rightarrow> watcher \<times> real \<times> world" where
  "dispatch st clock [] w = (st, clock, w)"
| "dispatch st clock ((ev, arrival, result, took, e) # rest) w =
     (let current_time = max clock arrival in
      case on_modified st ev current_time result e w of
        (st', w') \<Rightarrow> dispatch st' (returns_at st ev current_time took) rest w')"

subsection \<open>What the statements observe\<close>

text \<open>The number of builds run so far, the names copied so far, and the files of the
  destination directory.\<close>

fun is_build :: "effect \<Rightarrow> bool" where
  "is_build (Build timeout) = True"
| "is_build _ = False"

definition builds :: "world \<Rightarrow> nat" where
  "builds w = length (filter is_build (effects w))"

fun copied_name :: "effect \<Rightarrow> string list" where
  "copied_name (Copy filename) = [filename]"
| "copied_name _ = []"

definition copies :: "world \<Rightarrow> string list" where
  "copies w = concat (map copied_name (effects w))"

definition dest_files :: "world \<Rightarrow> dir" where
  "dest_files w = (case dest w of Dir d \<Rightarrow> d | _ \<Rightarrow> Map.empty)"

subsection \<open>The two-gate handler of the specification\<close>

text \<open>
  Section 4.5 of the specification describes a handler in which a relevant event first
  has to be accepted by the change gate (\<open>_should_copy\<close>, cooldown \<open>debounce_seconds\<close>) and
  then by the rebuild gate. This definition follows those words, not the source; it is
  there to be compared with \<open>on_modified\<close>.
\<close>

definition on_modified_two_gates ::
  "watcher \<Rightarrow> event \<Rightarrow> real \<Rightarrow> build_outcome \<Rightarrow> env \<Rightarrow> world \<Rightarrow> watcher \<times> world" where
  "on_modified_two_gates st ev current_time result e w =
     (if \<not> relevant st ev then (st, w)
      else
        (case should_copy st current_time of
           (False, st') \<Rightarrow> (st', w)
         | (True, st') \<Rightarrow>
             (case should_rebuild st' current_time of
                (False, st'') \<Rightarrow> (st'', w)
              | (True, st'') \<Rightarrow> (st'', rebuild_plugin result e w))))"

definition returns_at_two_gates :: "watcher \<Rightarrow> event \<Rightarrow> real \<Rightarrow> real \<Rightarrow> real" where
  "returns_at_two_gates st ev current_time took =
     (if \<not> relevant st ev then current_time
      else
        (case should_copy st current_time of
           (False, st') \<Rightarrow> current_time
         | (True, st') \<Rightarrow>
             (case should_rebuild st' current_time of
                (False, st'') \<Rightarrow> current_time
              | (True, st'') \<Rightarrow> current_time + 1 + took)))"

fun dispatch_two_gates ::
  "watcher \<Rightarrow> real \<Rightarrow> (event \<times> real \<times> build_outcome \<times> real \<times> env) list \<Rightarrow> world
     \<Rightarrow> watcher \<times> real \<times> world" where
  "dispatch_two_gates st clock [] w = (st, clock, w)"
| "dispatch_two_gates st clock ((ev, arrival, result, took, e) # rest) w =
     (let current_time = max clock arrival in
      case on_modified_two_gates st ev current_time result e w of
        (st', w') \<Rightarrow>
          dispatch_two_gates st' (returns_at_two_gates st ev current_time took) rest w')"

subsection \<open>Example inputs\<close>

text \<open>A project at \<open>/proj\<close> with the manifest \<open>{"id": "my-plugin"}\<close>, a vault at
  \<open>/vault\<close>, and the watcher that \<open>__init__\<close> makes of them.\<close>

definition ex_manifest :: manifest_file where
  "ex_manifest = Parsed (JObj [(''id'', JStr ''my-plugin'')])"

definition ex_watcher :: watcher where
  "ex_watcher =
     \<lparr>project_root = Path ''/proj'',
      obsidian_vault_path = Path ''/vault'',
      last_copy_time = 0,
      last_rebuild_time = 0,
      debounce_seconds = 2,
      rebuild_debounce_seconds = 1,
      dev_process = False,
      info = \<lparr>plugin_id = ''my-plugin'',
               plugin_name = JStr ''my-plugin'',
               plugin_dir = Path ''/vault/.obsidian/plugins/my-plugin''\<rparr>\<rparr>"

definition ex_event :: event where
  "ex_event = \<lparr>is_directory = False, src_path = ''/proj/src/main.ts''\<rparr>"

text \<open>A project root with the three files, checked at clock reading 100; \<open>main.js\<close> has
  the given contents and modification time.\<close>

definition ex_env :: "string \<Rightarrow> real \<Rightarrow> env" where
  "ex_env js mtime =
     \<lparr>now = 100,
      proj = [''main.js'' \<mapsto> \<lparr>fdata = js, fmtime = mtime\<rparr>,
              ''styles.css'' \<mapsto> \<lparr>fdata = ''css'', fmtime = 10\<rparr>,
              ''manifest.json'' \<mapsto> \<lparr>fdata = ''json'', fmtime = 10\<rparr>],
      mkdir_fails = False,
      copy_fails = (\<lambda>filename. False)\<rparr>"

definition ex_world :: world where
  "ex_world = \<lparr>dest = Absent, effects = []\<rparr>"

section \<open>Properties\<close>

subsection \<open>Build verification\<close>

text \<open>
  Claim C3. \<open>_check_build_success\<close> is a total function to \<open>bool\<close>: it raises in no
  case, and it is false when \<open>main.js\<close> is absent. In initial-copy mode it holds exactly
  when \<open>main.js\<close> exists and its size is greater than zero, whatever its modification
  time and the clock say. In incremental mode it holds exactly when \<open>main.js\<close> exists
  and its age at the check (clock reading minus modification time) is less than 30
  seconds; a file older than 30 seconds is rejected, empty or not.
\<close>

theorem check_build_success_policies:
  "(check_build_success e True \<longleftrightarrow> (\<exists>f. proj e ''main.js'' = Some f \<and> 0 < st_size f)) \<and>
   (check_build_success e False \<longleftrightarrow> (\<exists>f. proj e ''main.js'' = Some f \<and> now e - fmtime f < 30)) \<and>
   (proj e ''main.js'' = None \<longrightarrow> \<not> check_build_success e b) \<and>
   (\<forall>f. proj e ''main.js'' = Some f \<and> 30 < now e - fmtime f \<longrightarrow> \<not> check_build_success e False)"
  by (auto simp: check_build_success_def split: option.splits)

theorem check_build_success_policies_witness:
  "proj (ex_env ''js'' 55) ''main.js'' = Some \<lparr>fdata = ''js'', fmtime = 55\<rparr> \<and>
   30 < now (ex_env ''js'' 55) - fmtime \<lparr>fdata = ''js'', fmtime = 55\<rparr> \<and>
   check_build_success (ex_env ''js'' 55) True \<and>
   \<not> check_build_success (ex_env ''js'' 55) False \<and>
   proj (ex_env ''js'' 55\<lparr>proj := Map.empty\<rparr>) ''main.js'' = None \<and>
   \<not> check_build_success (ex_env ''js'' 55\<lparr>proj := Map.empty\<rparr>) True"
  using check_build_success_policies [of "ex_env ''js'' 55" True]
    check_build_success_policies [of "ex_env ''js'' 55\<lparr>proj := Map.empty\<rparr>" True]
  by (simp add: ex_env_def st_size_def)

text \<open>
  Claim C9. In incremental mode an empty \<open>main.js\<close> is accepted: when the file exists
  with size zero and its age at the check is less than 30 seconds, the check holds,
  while the initial-copy check, the only one that looks at the size, rejects the same
  file.
\<close>

theorem incremental_accepts_empty:
  "proj e ''main.js'' = Some f \<Longrightarrow> st_size f = 0 \<Longrightarrow> now e - fmtime f < 30 \<Longrightarrow>
   check_build_success e False \<and> \<not> check_build_success e True"
  by (simp add: check_build_success_def)

theorem incremental_accepts_empty_witness:
  "check_build_success (ex_env [] 95) False \<and> \<not> check_build_success (ex_env [] 95) True"
  using incremental_accepts_empty [of "ex_env [] 95" "\<lparr>fdata = [], fmtime = 95\<rparr>"]
  by (simp add: ex_env_def st_size_def)

subsection \<open>Copying\<close>

text \<open>The loop copies exactly the names that exist and whose copy does not raise, in
  the order of the list, whatever happens to the other names.\<close>

lemma copy_loop_filter:
  "copy_loop e names (copied, d) =
     (copied @ filter (\<lambda>n. proj e n \<noteq> None \<and> \<not> copy_fails e n) names,
      (\<lambda>x. if x \<in> set names \<and> proj e x \<noteq> None \<and> \<not> copy_fails e x then proj e x else d x))"
proof (induction names arbitrary: copied d)
  case Nil
  then show ?case by simp
next
  case (Cons n names)
  show ?case
    by (cases "proj e n") (auto simp: Cons.IH fun_eq_iff)
qed

lemma copies_append_Copy:
  "copies \<lparr>dest = x, effects = effects w @ map Copy cs\<rparr> = copies w @ cs"
  by (induction cs) (simp_all add: copies_def)

lemma copy_plugin_files_result:
  "copy_plugin_files e b w =
     (if \<not> check_build_success e b then Inr (False, w)
      else case mkdir_exist_ok (mkdir_fails e) (dest w) of
        Inl err \<Rightarrow> Inl err
      | Inr d \<Rightarrow>
          Inr (filter (\<lambda>n. proj e n \<noteq> None \<and> \<not> copy_fails e n) files_to_copy \<noteq> [],
               \<lparr>dest = Dir (\<lambda>x. if x \<in> set files_to_copy \<and> proj e x \<noteq> None \<and> \<not> copy_fails e x
                                then proj e x else d x),
                effects = effects w @
                  map Copy (filter (\<lambda>n. proj e n \<noteq> None \<and> \<not> copy_fails e n) files_to_copy)\<rparr>))"
  by (simp add: copy_plugin_files_def copy_loop_filter split: sum.splits)


text \<open>
  Claim C6. Whenever \<open>_copy_plugin_files\<close> returns, the names it has copied are, after
  a successful verification, all the names of the fixed list that exist in the project
  root and whose copy did not raise (a name whose copy raises is skipped and the loop
  goes on), and none after a failed verification; each copied file is in the destination
  as it is in the project root; and the value returned is true exactly when at least one
  name was copied. The only exception that leaves the method is the one of its
  \<open>mkdir\<close> call, which comes before the loop.
\<close>

theorem copy_tolerates_partial_failure:
  "(copy_plugin_files e b w = Inr (ok, w') \<longrightarrow>
      (let done = (if check_build_success e b
                   then filter (\<lambda>n. proj e n \<noteq> None \<and> \<not> copy_fails e n) files_to_copy
                   else [])
       in copies w' = copies w @ done \<and>
          (ok \<longleftrightarrow> done \<noteq> []) \<and>
          (\<forall>n \<in> set done. dest_files w' n = proj e n))) \<and>
   (copy_plugin_files e b w = Inl err \<longleftrightarrow>
      check_build_success e b \<and> mkdir_exist_ok (mkdir_fails e) (dest w) = Inl err)"
proof -
  have same: "copies \<lparr>dest = x, effects = effects w\<rparr> = copies w" for x
    using copies_append_Copy [of x w "[]"] by simp
  show ?thesis
    by (auto simp: copy_plugin_files_result copies_append_Copy same dest_files_def Let_def
             split: sum.splits if_splits)
qed

theorem copy_tolerates_partial_failure_witness:
  "copy_plugin_files ((ex_env ''js'' 100)\<lparr>copy_fails := (\<lambda>n. n = ''main.js'')\<rparr>) True ex_world
     = Inr (True, \<lparr>dest = Dir [''styles.css'' \<mapsto> \<lparr>fdata = ''css'', fmtime = 10\<rparr>,
                               ''manifest.json'' \<mapsto> \<lparr>fdata = ''json'', fmtime = 10\<rparr>],
                   effects = [Copy ''styles.css'', Copy ''manifest.json'']\<rparr>) \<and>
   copies \<lparr>dest = Dir [''styles.css'' \<mapsto> \<lparr>fdata = ''css'', fmtime = 10\<rparr>,
                        ''manifest.json'' \<mapsto> \<lparr>fdata = ''json'', fmtime = 10\<rparr>],
            effects = [Copy ''styles.css'', Copy ''manifest.json'']\<rparr>
     = copies ex_world @ [''styles.css'', ''manifest.json'']"
proof -
  have r: "copy_plugin_files ((ex_env ''js'' 100)\<lparr>copy_fails := (\<lambda>n. n = ''main.js'')\<rparr>) True ex_world
     = Inr (True, \<lparr>dest = Dir [''styles.css'' \<mapsto> \<lparr>fdata = ''css'', fmtime = 10\<rparr>,
                               ''manifest.json'' \<mapsto> \<lparr>fdata = ''json'', fmtime = 10\<rparr>],
                   effects = [Copy ''styles.css'', Copy ''manifest.json'']\<rparr>)"
    by (simp add: copy_plugin_files_def check_build_success_def ex_env_def ex_world_def
        st_size_def mkdir_exist_ok_def files_to_copy_def)
  show ?thesis
    using copy_tolerates_partial_failure
      [of "(ex_env ''js'' 100)\<lparr>copy_fails := (\<lambda>n. n = ''main.js'')\<rparr>" True ex_world True
          "\<lparr>dest = Dir [''styles.css'' \<mapsto> \<lparr>fdata = ''css'', fmtime = 10\<rparr>,
                               ''manifest.json'' \<mapsto> \<lparr>fdata = ''json'', fmtime = 10\<rparr>],
                   effects = [Copy ''styles.css'', Copy ''manifest.json'']\<rparr>" OSError] r
    by (simp add: check_build_success_def ex_env_def st_size_def files_to_copy_def)
qed




subsection \<open>Building\<close>

lemma copies_ran: "copies (ran t w) = copies w"
  by (simp add: copies_def ran_def)

lemma dest_files_ran: "dest_files (ran t w) = dest_files w"
  by (simp add: dest_files_def ran_def)

lemma create_plugin_directory_keeps:
  "copies (snd (create_plugin_directory fails w)) = copies w \<and>
   dest_files (snd (create_plugin_directory fails w)) = dest_files w \<and>
   builds (snd (create_plugin_directory fails w)) = builds w"
  by (simp add: create_plugin_directory_def copies_def dest_files_def builds_def split: node.splits)

text \<open>
  Claim C2. When the build subprocess exits with a code other than zero, no file is
  copied. \<open>_rebuild_plugin\<close> then does nothing but run the build: the names copied so
  far and the destination are as before. \<open>build_and_copy_once\<close> returns false, the
  names copied so far are as before, and so are the files of the destination directory
  (which the method may have created, empty).
\<close>

theorem failed_build_copies_nothing:
  "returncode \<noteq> 0 \<Longrightarrow>
   rebuild_plugin (Exited returncode out err) e w = ran 30 w \<and>
   copies (rebuild_plugin (Exited returncode out err) e w) = copies w \<and>
   dest (rebuild_plugin (Exited returncode out err) e w) = dest w \<and>
   \<not> fst (build_and_copy_once fails (Exited returncode out err) e w) \<and>
   copies (snd (build_and_copy_once fails (Exited returncode out err) e w)) = copies w \<and>
   dest_files (snd (build_and_copy_once fails (Exited returncode out err) e w)) = dest_files w"
proof -
  assume rc: "returncode \<noteq> 0"
  have a: "rebuild_plugin (Exited returncode out err) e w = ran 30 w"
    using rc by (simp add: rebuild_plugin_def)
  have b: "build_and_copy_once fails (Exited returncode out err) e w =
      (False, if fst (create_plugin_directory fails w)
              then ran 60 (snd (create_plugin_directory fails w))
              else snd (create_plugin_directory fails w))"
    using rc by (simp add: build_and_copy_once_def split: prod.splits bool.splits)
  show ?thesis
    by (simp add: a b copies_ran dest_files_ran create_plugin_directory_keeps) (simp add: ran_def)
qed

theorem failed_build_copies_nothing_witness:
  "(1::int) \<noteq> 0 \<and>
   rebuild_plugin (Exited 1 [] ''Parse error'') (ex_env ''js'' 100) ex_world
     = \<lparr>dest = Absent, effects = [Build 30]\<rparr> \<and>
   build_and_copy_once False (Exited 1 [] ''Parse error'') (ex_env ''js'' 100) ex_world
     = (False, \<lparr>dest = Dir Map.empty, effects = [Build 60]\<rparr>) \<and>
   rebuild_plugin (Exited 0 [] []) (ex_env ''js'' 100) ex_world \<noteq> \<lparr>dest = Absent, effects = [Build 30]\<rparr>"
proof -
  have "copies (rebuild_plugin (Exited 0 [] []) (ex_env ''js'' 100) ex_world) \<noteq> []"
    by (simp add: rebuild_plugin_def copy_plugin_files_result check_build_success_def ex_env_def
        ex_world_def files_to_copy_def mkdir_exist_ok_def ran_def copies_def)
  then have "rebuild_plugin (Exited 0 [] []) (ex_env ''js'' 100) ex_world
      \<noteq> \<lparr>dest = Absent, effects = [Build 30]\<rparr>"
    by (auto simp: copies_def)
  then show ?thesis
    using failed_build_copies_nothing
      [of 1 "[]" "''Parse error''" "ex_env ''js'' 100" ex_world False]
    by (simp add: ran_def ex_world_def build_and_copy_once_def create_plugin_directory_def)
qed

subsection \<open>Starting the watch mode\<close>

text \<open>What \<open>start_dev_mode\<close> returns when the initial copy returns: false when the
  destination directory cannot be created or the background process cannot be launched,
  true otherwise, also after an initial copy that has returned false.\<close>

lemma start_dev_mode_cases:
  "(case create_plugin_directory fails w of
      (created, w0) \<Rightarrow>
        (created \<longleftrightarrow> \<not> (dest w = Absent \<and> fails)) \<and>
        (\<not> created \<longrightarrow> start_dev_mode st fails popen_fails e w = Inr (False, st, w0)) \<and>
        (created \<and> popen_fails \<longrightarrow> start_dev_mode st fails popen_fails e w = Inr (False, st, w0)) \<and>
        (created \<and> \<not> popen_fails \<longrightarrow>
           (\<forall>ok w'. copy_plugin_files e True (w0\<lparr>effects := effects w0 @ [Spawn_dev]\<rparr>) = Inr (ok, w')
              \<longrightarrow> start_dev_mode st fails popen_fails e w
                    = Inr (True, st\<lparr>dev_process := True\<rparr>, w')) \<and>
           (\<forall>err. copy_plugin_files e True (w0\<lparr>effects := effects w0 @ [Spawn_dev]\<rparr>) = Inl err
              \<longrightarrow> start_dev_mode st fails popen_fails e w = Inl err)))"
  by (auto simp: start_dev_mode_def create_plugin_directory_def split: node.splits)

text \<open>
  Claim C8 fails on the code where the initial pass fails by raising. Let something that
  is no directory be at \<open>plugin_dir\<close>, and \<open>main.js\<close> be non-empty.
  \<open>_create_plugin_directory\<close> finds that the path exists and returns true, the background
  process is launched, and in the initial pass the \<open>mkdir\<close> of \<open>_copy_plugin_files\<close>
  raises \<open>FileExistsError\<close>. The call is outside any \<open>try\<close> of \<open>start_dev_mode\<close>, so the
  exception leaves the method instead of the value true. On the same input
  \<open>build_and_copy_once\<close> and \<open>_rebuild_plugin\<close>, which make the same call inside a
  \<open>try\<close>, catch the exception and return.
\<close>

theorem start_dev_mode_initial_copy_raises:
  "create_plugin_directory False \<lparr>dest = NotDir, effects = []\<rparr>
     = (True, \<lparr>dest = NotDir, effects = []\<rparr>) \<and>
   copy_plugin_files (ex_env ''js'' 100) True \<lparr>dest = NotDir, effects = [Spawn_dev]\<rparr>
     = Inl FileExistsError \<and>
   start_dev_mode ex_watcher False False (ex_env ''js'' 100) \<lparr>dest = NotDir, effects = []\<rparr>
     = Inl FileExistsError \<and>
   build_and_copy_once False (Exited 0 [] []) (ex_env ''js'' 100) \<lparr>dest = NotDir, effects = []\<rparr>
     = (False, \<lparr>dest = NotDir, effects = [Build 60]\<rparr>) \<and>
   rebuild_plugin (Exited 0 [] []) (ex_env ''js'' 100) \<lparr>dest = NotDir, effects = []\<rparr>
     = \<lparr>dest = NotDir, effects = [Build 30]\<rparr>"
  by (simp add: start_dev_mode_def build_and_copy_once_def rebuild_plugin_def ran_def
      create_plugin_directory_def copy_plugin_files_def check_build_success_def
      mkdir_exist_ok_def ex_env_def st_size_def)

subsection \<open>Loading the descriptor\<close>

lemma split_sep_plain: "CHR ''/'' \<notin> set s \<Longrightarrow> split_sep s = [s]"
  by (induction s) auto

lemma components_plain:
  "CHR ''/'' \<notin> set s \<Longrightarrow> s \<noteq> [] \<Longrightarrow> s \<noteq> ''.'' \<Longrightarrow> components s = [s]"
  by (simp add: components_def split_sep_plain)

lemma joinpath_plain:
  "CHR ''/'' \<notin> set s \<Longrightarrow> s \<noteq> [] \<Longrightarrow> s \<noteq> ''.'' \<Longrightarrow>
   joinpath p s = p\<lparr>segments := segments p @ [s]\<rparr>"
  by (cases s) (auto simp: joinpath_def components_plain)

text \<open>
  Claim C7. For a manifest that has no \<open>id\<close> field, \<open>_load_plugin_info\<close> gives no
  descriptor and \<open>__init__\<close> gives no watcher. For a manifest whose \<open>id\<close> is the string
  \<open>i\<close>, the descriptor has that id, the value of \<open>name\<close> as its name, or \<open>i\<close> when there
  is no \<open>name\<close>, and as its directory the vault path joined with \<open>.obsidian\<close>,
  \<open>plugins\<close> and \<open>i\<close>; when \<open>i\<close> is a single path component, that is the vault path
  with these three components added.
\<close>

theorem load_plugin_info_id:
  "((\<nexists>items v. manifest = JObj items \<and> map_of items ''id'' = Some v) \<longrightarrow>
      (\<forall>d. load_plugin_info vault (Parsed manifest) \<noteq> Inr (Some d)) \<and>
      (\<forall>st. init root_dir vault (Parsed manifest) \<noteq> Inr st)) \<and>
   (\<forall>items i. manifest = JObj items \<and> map_of items ''id'' = Some (JStr i) \<longrightarrow>
      load_plugin_info vault (Parsed manifest) =
        Inr (Some \<lparr>plugin_id = i,
                   plugin_name = (case map_of items ''name'' of None \<Rightarrow> JStr i | Some n \<Rightarrow> n),
                   plugin_dir = joinpath (joinpath (joinpath vault ''.obsidian'') ''plugins'') i\<rparr>) \<and>
      (CHR ''/'' \<notin> set i \<and> i \<noteq> [] \<and> i \<noteq> ''.'' \<longrightarrow>
         joinpath (joinpath (joinpath vault ''.obsidian'') ''plugins'') i
           = vault\<lparr>segments := segments vault @ [''.obsidian'', ''plugins'', i]\<rparr>))"
proof (intro conjI impI allI)
  assume h: "\<nexists>items v. manifest = JObj items \<and> map_of items ''id'' = Some v"
  then have "subscript manifest ''id'' = Inl KeyError \<or> subscript manifest ''id'' = Inl TypeError"
    by (cases manifest) (auto split: option.splits)
  then have l: "load_plugin_info vault (Parsed manifest) = Inr None \<or>
      load_plugin_info vault (Parsed manifest) = Inl TypeError"
    by (auto simp: load_plugin_info_def)
  from l show "load_plugin_info vault (Parsed manifest) \<noteq> Inr (Some d)" for d by auto
  from l show "init root_dir vault (Parsed manifest) \<noteq> Inr st" for st
    by (auto simp: init_def)
next
  fix items i
  assume "manifest = JObj items \<and> map_of items ''id'' = Some (JStr i)"
  then show "load_plugin_info vault (Parsed manifest) =
        Inr (Some \<lparr>plugin_id = i,
                   plugin_name = (case map_of items ''name'' of None \<Rightarrow> JStr i | Some n \<Rightarrow> n),
                   plugin_dir = joinpath (joinpath (joinpath vault ''.obsidian'') ''plugins'') i\<rparr>)"
    by (simp add: load_plugin_info_def)
next
  fix items i
  assume "CHR ''/'' \<notin> set i \<and> i \<noteq> [] \<and> i \<noteq> ''.''"
  then show "joinpath (joinpath (joinpath vault ''.obsidian'') ''plugins'') i
           = vault\<lparr>segments := segments vault @ [''.obsidian'', ''plugins'', i]\<rparr>"
    by (simp add: joinpath_plain)
qed

theorem load_plugin_info_id_witness:
  "load_plugin_info (Path ''/vault'') (Parsed (JObj [(''id'', JStr ''my-plugin'')]))
     = Inr (Some \<lparr>plugin_id = ''my-plugin'', plugin_name = JStr ''my-plugin'',
                  plugin_dir = Path ''/vault/.obsidian/plugins/my-plugin''\<rparr>) \<and>
   init (Path ''/proj'') (Path ''/vault'') ex_manifest = Inr ex_watcher \<and>
   load_plugin_info (Path ''/vault'') (Parsed (JObj [(''name'', JStr ''My Plugin'')])) = Inr None \<and>
   init (Path ''/proj'') (Path ''/vault'') (Parsed (JObj [(''name'', JStr ''My Plugin'')]))
     = Inl ValueError"
proof -
  have p: "Path ''/vault/.obsidian/plugins/my-plugin''
      = (Path ''/vault'')\<lparr>segments := segments (Path ''/vault'') @ [''.obsidian'', ''plugins'', ''my-plugin'']\<rparr>"
    by (simp add: Path_def splitroot_def components_def)
  show ?thesis
    using load_plugin_info_id [of "JObj [(''id'', JStr ''my-plugin'')]" "Path ''/vault''" "Path ''/proj''"]
      load_plugin_info_id [of "JObj [(''name'', JStr ''My Plugin'')]" "Path ''/vault''" "Path ''/proj''"]
    by (simp add: p ex_manifest_def ex_watcher_def init_def load_plugin_info_def)
qed

subsection \<open>Debouncing\<close>

lemma builds_ran: "builds (ran t w) = Suc (builds w)"
  by (simp add: builds_def ran_def)

lemma filter_is_build_Copy: "filter is_build (map Copy cs) = []"
  by (induction cs) simp_all

lemma builds_copy_plugin_files:
  "copy_plugin_files e b w = Inr (ok, w') \<Longrightarrow> builds w' = builds w"
  by (auto simp: copy_plugin_files_result builds_def filter_is_build_Copy
           split: if_splits sum.splits)

lemma builds_rebuild_plugin: "builds (rebuild_plugin result e w) = Suc (builds w)"
  by (auto simp: rebuild_plugin_def Let_def builds_ran
           split: build_outcome.splits sum.splits dest: builds_copy_plugin_files)

lemma on_modified_cases:
  "on_modified st ev t result e w =
     (if relevant st ev \<and> rebuild_debounce_seconds st < t - last_rebuild_time st
      then (st\<lparr>last_rebuild_time := t\<rparr>, rebuild_plugin result e w)
      else (st, w))"
  by (simp add: on_modified_def should_rebuild_def)

lemma relevant_gate_fields [simp]:
  "relevant (st\<lparr>last_rebuild_time := x\<rparr>) ev = relevant st ev"
  "relevant (st\<lparr>last_copy_time := x\<rparr>) ev = relevant st ev"
  "relevant (st\<lparr>debounce_seconds := x\<rparr>) ev = relevant st ev"
  by (simp_all add: relevant_def)

lemma relevant_ex: "relevant ex_watcher ex_event"
  by (simp add: relevant_def ex_watcher_def ex_event_def Path_def splitroot_def components_def
      joinpath_def name_of_def parts_of_def suffix_of_def is_relative_to_def)

text \<open>
  With the cooldown at most one second and builds that take time, the gate rejects
  nothing: when the clock is more than the cooldown past the last acceptance, every
  relevant event of the queue runs a build of its own, whenever it arrived.
\<close>

lemma dispatch_never_drops:
  "rebuild_debounce_seconds st \<le> 1 \<Longrightarrow>
   last_rebuild_time st + rebuild_debounce_seconds st < clock \<Longrightarrow>
   \<forall>(ev, arrival, result, took, e) \<in> set evs. 0 < took \<Longrightarrow>
   builds (snd (snd (dispatch st clock evs w)))
     = builds w + length (filter (\<lambda>x. relevant st (fst x)) evs)"
proof (induction evs arbitrary: st clock w)
  case Nil
  then show ?case by simp
next
  case (Cons x evs)
  obtain ev arrival result took e where x: "x = (ev, arrival, result, took, e)"
    by (cases x) auto
  let ?t = "max clock arrival"
  from Cons.prems have took: "0 < took" and rest: "\<forall>(ev, arrival, result, took, e) \<in> set evs. 0 < took"
    by (simp_all add: x)
  from Cons.prems have gate: "rebuild_debounce_seconds st < ?t - last_rebuild_time st"
    by simp
  show ?case
  proof (cases "relevant st ev")
    case True
    let ?st = "st\<lparr>last_rebuild_time := ?t\<rparr>"
    have om: "on_modified st ev ?t result e w = (?st, rebuild_plugin result e w)"
      using True gate by (simp add: on_modified_cases)
    have ra: "returns_at st ev ?t took = ?t + 1 + took"
      using True gate by (simp add: returns_at_def should_rebuild_def)
    have "builds (snd (snd (dispatch ?st (?t + 1 + took) evs (rebuild_plugin result e w))))
        = builds (rebuild_plugin result e w) + length (filter (\<lambda>x. relevant ?st (fst x)) evs)"
      using Cons.prems(1) took rest by (intro Cons.IH) simp_all
    then show ?thesis
      using True by (simp add: x om ra builds_rebuild_plugin Let_def)
  next
    case False
    have om: "on_modified st ev ?t result e w = (st, w)"
      using False by (simp add: on_modified_cases)
    have ra: "returns_at st ev ?t took = ?t"
      using False by (simp add: returns_at_def)
    have "builds (snd (snd (dispatch st ?t evs w)))
        = builds w + length (filter (\<lambda>x. relevant st (fst x)) evs)"
      using Cons.prems(1,2) rest by (intro Cons.IH) simp_all
    then show ?thesis
      using False by (simp add: x om ra Let_def)
  qed
qed

text \<open>
  Claim C1 fails on the code. Two relevant events arrive at 100 and at 100.3, within
  one cooldown of one second, at the watcher that \<open>__init__\<close> makes, and each build
  takes two seconds. The first event is accepted at 100 and keeps the thread until 103
  (one second of sleep, two of build). The second has waited in the queue; the gate
  reads 103 for it, three seconds after the last acceptance, and accepts it: two builds
  are run, the second one starting at 103 and ending at 106.
\<close>

theorem burst_rebuilds_twice:
  "(100.3::real) - 100 \<le> rebuild_debounce_seconds ex_watcher \<and>
   builds ex_world = 0 \<and>
   builds (snd (snd (dispatch ex_watcher 100
      [(ex_event, 100, Exited 0 [] [], 2, (ex_env ''js'' 102)\<lparr>now := 103\<rparr>),
       (ex_event, 100.3, Exited 0 [] [], 2, (ex_env ''js'' 105)\<lparr>now := 106\<rparr>)] ex_world))) = 2 \<and>
   fst (dispatch ex_watcher 100
      [(ex_event, 100, Exited 0 [] [], 2, (ex_env ''js'' 102)\<lparr>now := 103\<rparr>),
       (ex_event, 100.3, Exited 0 [] [], 2, (ex_env ''js'' 105)\<lparr>now := 106\<rparr>)] ex_world)
     = ex_watcher\<lparr>last_rebuild_time := 103\<rparr> \<and>
   fst (snd (dispatch ex_watcher 100
      [(ex_event, 100, Exited 0 [] [], 2, (ex_env ''js'' 102)\<lparr>now := 103\<rparr>),
       (ex_event, 100.3, Exited 0 [] [], 2, (ex_env ''js'' 105)\<lparr>now := 106\<rparr>)] ex_world)) = 106"
proof -
  have g: "last_rebuild_time ex_watcher = 0" "rebuild_debounce_seconds ex_watcher = 1"
    by (simp_all add: ex_watcher_def)
  have w: "builds ex_world = 0"
    by (simp add: builds_def ex_world_def)
  have d: "dispatch ex_watcher 100
      [(ex_event, 100, Exited 0 [] [], 2, (ex_env ''js'' 102)\<lparr>now := 103\<rparr>),
       (ex_event, 100.3, Exited 0 [] [], 2, (ex_env ''js'' 105)\<lparr>now := 106\<rparr>)] ex_world
     = (ex_watcher\<lparr>last_rebuild_time := 103\<rparr>, 106,
        rebuild_plugin (Exited 0 [] []) ((ex_env ''js'' 105)\<lparr>now := 106\<rparr>)
          (rebuild_plugin (Exited 0 [] []) ((ex_env ''js'' 102)\<lparr>now := 103\<rparr>) ex_world))"
    using relevant_ex
    by (simp add: on_modified_cases returns_at_def should_rebuild_def g Let_def)
  show ?thesis
    unfolding d by (simp add: builds_rebuild_plugin w g)
qed




text \<open>
  Claim C4, as stated, fails. \<open>on_modified\<close> never calls \<open>_should_copy\<close>. Two relevant
  events arrive at 100 and at 101.5 at the watcher that \<open>__init__\<close> makes, and each build
  takes a fifth of a second, so that the handler is free again at 101.2 and reads 101.5
  for the second event. Both run a build, and \<open>last_copy_time\<close> is still 0 afterwards.
  The change gate, had it accepted the first event, would reject the second (1.5 seconds
  is within its cooldown of 2), and the two-gate handler of the specification runs one
  build on the same events.
\<close>

theorem two_gates_counterexample:
  "builds (snd (snd (dispatch ex_watcher 100
      [(ex_event, 100, Exited 0 [] [], 0.2, ex_env ''js'' 100),
       (ex_event, 101.5, Exited 0 [] [], 0.2, ex_env ''js'' 100)] ex_world))) = 2 \<and>
   last_copy_time (fst (dispatch ex_watcher 100
      [(ex_event, 100, Exited 0 [] [], 0.2, ex_env ''js'' 100),
       (ex_event, 101.5, Exited 0 [] [], 0.2, ex_env ''js'' 100)] ex_world)) = 0 \<and>
   fst (should_copy (ex_watcher\<lparr>last_copy_time := 100\<rparr>) 101.5) = False \<and>
   builds (snd (snd (dispatch_two_gates ex_watcher 100
      [(ex_event, 100, Exited 0 [] [], 0.2, ex_env ''js'' 100),
       (ex_event, 101.5, Exited 0 [] [], 0.2, ex_env ''js'' 100)] ex_world))) = 1"
proof -
  have g: "last_rebuild_time ex_watcher = 0" "rebuild_debounce_seconds ex_watcher = 1"
    "last_copy_time ex_watcher = 0" "debounce_seconds ex_watcher = 2"
    by (simp_all add: ex_watcher_def)
  have w: "builds ex_world = 0"
    by (simp add: builds_def ex_world_def)
  have a: "dispatch ex_watcher 100
      [(ex_event, 100, Exited 0 [] [], 0.2, ex_env ''js'' 100),
       (ex_event, 101.5, Exited 0 [] [], 0.2, ex_env ''js'' 100)] ex_world
     = (ex_watcher\<lparr>last_rebuild_time := 101.5\<rparr>, 102.7,
        rebuild_plugin (Exited 0 [] []) (ex_env ''js'' 100)
          (rebuild_plugin (Exited 0 [] []) (ex_env ''js'' 100) ex_world))"
    using relevant_ex
    by (simp add: on_modified_cases returns_at_def should_rebuild_def g Let_def)
  have b: "dispatch_two_gates ex_watcher 100
      [(ex_event, 100, Exited 0 [] [], 0.2, ex_env ''js'' 100),
       (ex_event, 101.5, Exited 0 [] [], 0.2, ex_env ''js'' 100)] ex_world
     = (ex_watcher\<lparr>last_copy_time := 100, last_rebuild_time := 100\<rparr>, 101.5,
        rebuild_plugin (Exited 0 [] []) (ex_env ''js'' 100) ex_world)"
    using relevant_ex
    by (simp add: on_modified_two_gates_def returns_at_two_gates_def should_copy_def
        should_rebuild_def g Let_def)
  have 1: "builds (snd (snd (dispatch ex_watcher 100
      [(ex_event, 100, Exited 0 [] [], 0.2, ex_env ''js'' 100),
       (ex_event, 101.5, Exited 0 [] [], 0.2, ex_env ''js'' 100)] ex_world))) = 2"
    unfolding a by (simp add: builds_rebuild_plugin w)
  have 2: "last_copy_time (fst (dispatch ex_watcher 100
      [(ex_event, 100, Exited 0 [] [], 0.2, ex_env ''js'' 100),
       (ex_event, 101.5, Exited 0 [] [], 0.2, ex_env ''js'' 100)] ex_world)) = 0"
    unfolding a by (simp add: g)
  have 3: "fst (should_copy (ex_watcher\<lparr>last_copy_time := 100\<rparr>) 101.5) = False"
    by (simp add: should_copy_def g)
  have 4: "builds (snd (snd (dispatch_two_gates ex_watcher 100
      [(ex_event, 100, Exited 0 [] [], 0.2, ex_env ''js'' 100),
       (ex_event, 101.5, Exited 0 [] [], 0.2, ex_env ''js'' 100)] ex_world))) = 1"
    unfolding b by (simp add: builds_rebuild_plugin w)
  show ?thesis
    using 1 2 3 4 by blast
qed

text \<open>
  Claim C4, amended. In watch mode a relevant event passes one debounce gate before it
  causes a rebuild, the rebuild gate (cooldown 1 second by default): \<open>on_modified\<close> runs
  the build exactly when the event is relevant and \<open>_should_rebuild\<close> accepts it, and an
  event that this gate rejects runs no build. The change gate (\<open>_should_copy\<close>, cooldown
  2 seconds by default) has its own timestamp and cooldown, which the rebuild gate does
  not touch, but the handler neither reads nor writes them.
\<close>

theorem only_rebuild_gate_consulted:
  "on_modified st ev t result e w =
     (if relevant st ev \<and> fst (should_rebuild st t)
      then (snd (should_rebuild st t), rebuild_plugin result e w)
      else (st, w)) \<and>
   (\<not> fst (should_rebuild st t) \<longrightarrow> builds (snd (on_modified st ev t result e w)) = builds w) \<and>
   on_modified (st\<lparr>last_copy_time := x, debounce_seconds := y\<rparr>) ev t result e w =
     (fst (on_modified st ev t result e w)\<lparr>last_copy_time := x, debounce_seconds := y\<rparr>,
      snd (on_modified st ev t result e w)) \<and>
   last_copy_time (fst (on_modified st ev t result e w)) = last_copy_time st \<and>
   last_rebuild_time (snd (should_copy st t)) = last_rebuild_time st \<and>
   last_copy_time (snd (should_rebuild st t)) = last_copy_time st \<and>
   (\<forall>st0. init root_dir vault mf = Inr st0 \<longrightarrow>
      debounce_seconds st0 = 2 \<and> rebuild_debounce_seconds st0 = 1)"
  by (auto simp: on_modified_cases should_rebuild_def should_copy_def init_def
           split: sum.splits option.splits)

theorem only_rebuild_gate_consulted_witness:
  "\<not> fst (should_rebuild (ex_watcher\<lparr>last_rebuild_time := 100\<rparr>) 100.5) \<and>
   builds (snd (on_modified (ex_watcher\<lparr>last_rebuild_time := 100\<rparr>) ex_event 100.5
      (Exited 0 [] []) (ex_env ''js'' 100) ex_world)) = builds ex_world \<and>
   init (Path ''/proj'') (Path ''/vault'') ex_manifest = Inr ex_watcher \<and>
   debounce_seconds ex_watcher = 2 \<and> rebuild_debounce_seconds ex_watcher = 1"
proof -
  have i: "init (Path ''/proj'') (Path ''/vault'') ex_manifest = Inr ex_watcher"
    by (simp add: init_def load_plugin_info_def ex_manifest_def ex_watcher_def
        joinpath_def Path_def splitroot_def components_def)
  have g: "\<not> fst (should_rebuild (ex_watcher\<lparr>last_rebuild_time := 100\<rparr>) 100.5)"
    by (simp add: should_rebuild_def ex_watcher_def)
  show ?thesis
    using only_rebuild_gate_consulted
      [where st = "ex_watcher\<lparr>last_rebuild_time := 100\<rparr>" and t = "100.5" and ev = ex_event
         and result = "Exited 0 [] []" and e = "ex_env ''js'' 100" and w = ex_world
         and root_dir = "Path ''/proj''" and vault = "Path ''/vault''" and mf = ex_manifest]
      i g
    by simp
qed

end
